theory Spec2Isabelle
  imports Main "HOL-Library.AList"
begin

section \<open>The parsed document and the library operations the scraper calls\<close>

text \<open>
  \<^verbatim>\<open>scraper.py\<close> hands \<^verbatim>\<open>response.content\<close> to \<^verbatim>\<open>BeautifulSoup(..., "html.parser")\<close>
  and works on the tree the parser builds. A node is a tag (name, the tokens of its
  multi-valued \<^verbatim>\<open>class\<close> attribute, its other attributes, its contents) or a piece of
  text. A soup is the list of top-level nodes of the document.
\<close>

datatype node =
    Tag string "string list" "(string \<times> string) list" "node list"
  | NavigableString string

type_synonym soup = "node list"

fun tag_name :: "node \<Rightarrow> string option" where
  "tag_name (Tag n cs as ch) = Some n"
| "tag_name (NavigableString s) = None"

fun contents :: "node \<Rightarrow> node list" where
  "contents (Tag n cs as ch) = ch"
| "contents (NavigableString s) = []"

text \<open>\<^verbatim>\<open>tag.get("class", [])\<close>: the token list, empty when the attribute is missing.\<close>

fun get_class :: "node \<Rightarrow> string list" where
  "get_class (Tag n cs as ch) = cs"
| "get_class (NavigableString s) = []"

text \<open>\<^verbatim>\<open>tag.get(key)\<close> for a single-valued attribute: \<^verbatim>\<open>None\<close> when it is missing.\<close>

fun tag_get :: "node \<Rightarrow> string \<Rightarrow> string option" where
  "tag_get (Tag n cs as ch) k = map_of as k"
| "tag_get (NavigableString s) k = None"

text \<open>\<^verbatim>\<open>tag.text\<close>: every piece of text below the node, in document order.\<close>

fun text_of :: "node \<Rightarrow> string" where
  "text_of (NavigableString s) = s"
| "text_of (Tag n cs as ch) = concat (map text_of ch)"

text \<open>
  A Python \<^verbatim>\<open>str\<close> is a list of code points; a \<^typ>\<open>char\<close> is a code point from U+0000
  to U+00FF. \<^verbatim>\<open>str.strip()\<close> removes leading and trailing whitespace, the characters for
  which \<^verbatim>\<open>str.isspace\<close> holds: in this range U+0009 to U+000D, U+001C to U+0020, U+0085
  and U+00A0.
\<close>

definition py_isspace :: "char \<Rightarrow> bool" where
  "py_isspace c \<longleftrightarrow>
     c \<in> set [CHR 0x09, CHR 0x0A, CHR 0x0B, CHR 0x0C, CHR 0x0D,
              CHR 0x1C, CHR 0x1D, CHR 0x1E, CHR 0x1F, CHR 0x20, CHR 0x85, CHR 0xA0]"

definition strip :: "string \<Rightarrow> string" where
  "strip s = rev (dropWhile py_isspace (rev (dropWhile py_isspace s)))"

text \<open>
  Searching. \<^verbatim>\<open>find_all\<close> walks the descendants in document order (a tag before its
  contents, contents before later siblings) and keeps those that match; \<^verbatim>\<open>find\<close> is the
  first of them or \<^verbatim>\<open>None\<close>.
\<close>

fun find_all_in :: "(node \<Rightarrow> bool) \<Rightarrow> node list \<Rightarrow> node list" where
  "find_all_in P [] = []"
| "find_all_in P (NavigableString s # rest) = find_all_in P rest"
| "find_all_in P (Tag n cs as ch # rest) =
     (if P (Tag n cs as ch) then [Tag n cs as ch] else [])
       @ find_all_in P ch @ find_all_in P rest"

definition find_in :: "(node \<Rightarrow> bool) \<Rightarrow> node list \<Rightarrow> node option" where
  "find_in P ns = (case find_all_in P ns of [] \<Rightarrow> None | t # _ \<Rightarrow> Some t)"

text \<open>
  The first match in document order together with the siblings that follow it;
  \<^verbatim>\<open>find_next_sibling("p")\<close> is then the first of these siblings that is a \<^verbatim>\<open>p\<close> tag.
\<close>

fun find_with_siblings :: "(node \<Rightarrow> bool) \<Rightarrow> node list \<Rightarrow> (node \<times> node list) option" where
  "find_with_siblings P [] = None"
| "find_with_siblings P (NavigableString s # rest) = find_with_siblings P rest"
| "find_with_siblings P (Tag n cs as ch # rest) =
     (if P (Tag n cs as ch) then Some (Tag n cs as ch, rest)
      else (case find_with_siblings P ch of
              Some r \<Rightarrow> Some r
            | None \<Rightarrow> find_with_siblings P rest))"

text \<open>
  Matching. A name matches a tag of that name. A \<^verbatim>\<open>class_\<close> string matches when it is
  one of the tokens, or when it is the whole attribute value (the tokens joined by single
  spaces): this is how \<^verbatim>\<open>class_="instock availability"\<close> selects.
\<close>

fun join_space :: "string list \<Rightarrow> string" where
  "join_space [] = []"
| "join_space [t] = t"
| "join_space (t # u # ts) = t @ '' '' @ join_space (u # ts)"

definition named :: "string \<Rightarrow> node \<Rightarrow> bool" where
  "named n t \<longleftrightarrow> tag_name t = Some n"

definition class_matches :: "string \<Rightarrow> node \<Rightarrow> bool" where
  "class_matches c t \<longleftrightarrow> c \<in> set (get_class t) \<or> join_space (get_class t) = c"

definition named_class :: "string \<Rightarrow> string \<Rightarrow> node \<Rightarrow> bool" where
  "named_class n c t \<longleftrightarrow> named n t \<and> class_matches c t"

definition named_id :: "string \<Rightarrow> string \<Rightarrow> node \<Rightarrow> bool" where
  "named_id n i t \<longleftrightarrow> named n t \<and> tag_get t ''id'' = Some i"

section \<open>Exceptions and Python values\<close>

datatype request_exception = ConnectionError | Timeout | HTTPError nat

datatype error =
    RequestException request_exception
  | ParserRejectedMarkup
  | AttributeError
  | IndexError
  | KeyError

definition bind_err :: "error + 'a \<Rightarrow> ('a \<Rightarrow> error + 'b) \<Rightarrow> error + 'b" where
  "bind_err m f = (case m of Inl e \<Rightarrow> Inl e | Inr x \<Rightarrow> f x)"

text \<open>
  The accesses that can raise: \<^verbatim>\<open>.text\<close> on the result of a \<^verbatim>\<open>find\<close> that may be
  \<^verbatim>\<open>None\<close>, indexing a list, and reading a dictionary key.
\<close>

definition py_text :: "node option \<Rightarrow> error + string" where
  "py_text t = (case t of None \<Rightarrow> Inl AttributeError | Some n \<Rightarrow> Inr (text_of n))"

definition py_index :: "'a list \<Rightarrow> nat \<Rightarrow> error + 'a" where
  "py_index xs i = (if i < length xs then Inr (xs ! i) else Inl IndexError)"

datatype pyval = PNone | PStr string | PDict "(string \<times> string) list"

text \<open>
  A Python \<^verbatim>\<open>dict\<close> is an association list in insertion order: assigning to a key that is
  present replaces its value in place, assigning to a new key appends it
  (\<^const>\<open>AList.update\<close>).
\<close>

type_synonym book_data = "(string \<times> pyval) list"

definition dict_getitem :: "('k \<times> 'v) list \<Rightarrow> 'k \<Rightarrow> error + 'v" where
  "dict_getitem d k = (case map_of d k of None \<Rightarrow> Inl KeyError | Some v \<Rightarrow> Inr v)"

text \<open>
  The body of a response is taken by what the parser makes of it: \<^verbatim>\<open>html.parser\<close> builds
  a tree from it, or it rejects the markup (as it does for \<^verbatim>\<open><![x[\<close>) and the
  \<^verbatim>\<open>BeautifulSoup\<close> call raises \<^verbatim>\<open>ParserRejectedMarkup\<close>.
\<close>

datatype content = Markup soup | Rejected

fun BeautifulSoup :: "content \<Rightarrow> error + soup" where
  "BeautifulSoup (Markup soup) = Inr soup"
| "BeautifulSoup Rejected = Inl ParserRejectedMarkup"

section \<open>\<^verbatim>\<open>get_book_data\<close>: the extraction phase\<close>

text \<open>
  Lines 38 to 81: the parse, then each field as one step on the dictionary being built. A
  step that raises ends the extraction with that exception.
\<close>

text \<open>\<^verbatim>\<open>x.text.strip() if x else None\<close>\<close>

definition text_or_none :: "node option \<Rightarrow> error + pyval" where
  "text_or_none t =
     (if t \<noteq> None then bind_err (py_text t) (\<lambda>s. Inr (PStr (strip s))) else Inr PNone)"

definition set_title :: "soup \<Rightarrow> book_data \<Rightarrow> error + book_data" where
  "set_title soup bd =
     (let title_tag = find_in (named ''h1'') soup
      in bind_err (text_or_none title_tag) (\<lambda>v. Inr (AList.update ''title'' v bd)))"

definition set_price :: "soup \<Rightarrow> book_data \<Rightarrow> error + book_data" where
  "set_price soup bd =
     (let price_tag = find_in (named_class ''p'' ''price_color'') soup
      in bind_err (text_or_none price_tag) (\<lambda>v. Inr (AList.update ''price'' v bd)))"

definition set_rating :: "soup \<Rightarrow> book_data \<Rightarrow> error + book_data" where
  "set_rating soup bd =
     (case find_in (named_class ''p'' ''star-rating'') soup of
        Some rating_tag \<Rightarrow>
          (let rating_classes = get_class rating_tag
           in bind_err
                (if length rating_classes > 1
                 then bind_err (py_index rating_classes 1) (\<lambda>r. Inr (PStr r))
                 else Inr PNone)
                (\<lambda>v. Inr (AList.update ''rating'' v bd)))
      | None \<Rightarrow> Inr (AList.update ''rating'' PNone bd))"

definition set_availability :: "soup \<Rightarrow> book_data \<Rightarrow> error + book_data" where
  "set_availability soup bd =
     (let availability_tag = find_in (named_class ''p'' ''instock availability'') soup
      in if availability_tag \<noteq> None
         then bind_err (py_text availability_tag)
                (\<lambda>s. Inr (AList.update ''availability'' (PStr (strip s)) bd))
         else Inr (AList.update ''availability'' PNone bd))"

definition set_description :: "soup \<Rightarrow> book_data \<Rightarrow> error + book_data" where
  "set_description soup bd =
     (case find_with_siblings (named_id ''div'' ''product_description'') soup of
        Some (description_tag, following) \<Rightarrow>
          (let description_p = List.find (named ''p'') following
           in bind_err (text_or_none description_p)
                (\<lambda>v. Inr (AList.update ''description'' v bd)))
      | None \<Rightarrow> Inr (AList.update ''description'' PNone bd))"

text \<open>The loop over the rows of the characteristics table.\<close>

definition scan_row :: "node \<Rightarrow> (string \<times> string) list \<Rightarrow> error + (string \<times> string) list" where
  "scan_row row product_info =
     (let header = find_in (named ''th'') (contents row);
          data = find_in (named ''td'') (contents row)
      in if header \<noteq> None \<and> data \<noteq> None
         then bind_err (py_text header) (\<lambda>h.
              bind_err (py_text data) (\<lambda>d.
                Inr (AList.update (strip h) (strip d) product_info)))
         else Inr product_info)"

fun scan_rows :: "node list \<Rightarrow> (string \<times> string) list \<Rightarrow> error + (string \<times> string) list" where
  "scan_rows [] product_info = Inr product_info"
| "scan_rows (row # rows) product_info =
     bind_err (scan_row row product_info) (scan_rows rows)"

definition scan_table :: "soup \<Rightarrow> error + (string \<times> string) list" where
  "scan_table soup =
     (case find_in (named_class ''table'' ''table table-striped'') soup of
        Some table \<Rightarrow> scan_rows (find_all_in (named ''tr'') (contents table)) []
      | None \<Rightarrow> Inr [])"

definition set_product_info :: "soup \<Rightarrow> book_data \<Rightarrow> error + book_data" where
  "set_product_info soup bd =
     bind_err (scan_table soup) (\<lambda>product_info.
       Inr (AList.update ''product_info'' (PDict product_info) bd))"

definition extract_book_data :: "content \<Rightarrow> error + book_data" where
  "extract_book_data content =
     bind_err (BeautifulSoup content) (\<lambda>soup.
     bind_err (set_title soup []) (\<lambda>bd1.
     bind_err (set_price soup bd1) (\<lambda>bd2.
     bind_err (set_rating soup bd2) (\<lambda>bd3.
     bind_err (set_availability soup bd3) (\<lambda>bd4.
     bind_err (set_description soup bd4) (\<lambda>bd5.
     set_product_info soup bd5))))))"

section \<open>The network\<close>

text \<open>
  \<^verbatim>\<open>requests.get(url)\<close> either raises a \<^verbatim>\<open>RequestException\<close> or returns a response with a
  status code and a body. The network is any function
  from the number of requests made so far and the URL to such an outcome, so a source may
  answer the same URL differently at different times. Every call is recorded in the list of
  requested URLs.
\<close>

datatype fetch_result = Raises request_exception | Response nat content

type_synonym net = "nat \<Rightarrow> string \<Rightarrow> fetch_result"

definition requests_get :: "net \<Rightarrow> string \<Rightarrow> string list \<Rightarrow> fetch_result \<times> string list" where
  "requests_get nw url reqs = (nw (length reqs) url, reqs @ [url])"

text \<open>\<^verbatim>\<open>response.raise_for_status()\<close> raises \<^verbatim>\<open>HTTPError\<close> for a 4xx or 5xx status.\<close>

definition raise_for_status :: "nat \<Rightarrow> request_exception + unit" where
  "raise_for_status sc = (if 400 \<le> sc \<and> sc < 600 then Inl (HTTPError sc) else Inr ())"

definition get_book_data :: "net \<Rightarrow> string \<Rightarrow> string list \<Rightarrow> (error + book_data) \<times> string list" where
  "get_book_data nw book_url reqs =
     (case requests_get nw book_url reqs of
        (Raises e, reqs') \<Rightarrow> (Inl (RequestException e), reqs')
      | (Response sc content, reqs') \<Rightarrow>
          (case raise_for_status sc of
             Inl e \<Rightarrow> (Inl (RequestException e), reqs')
           | Inr _ \<Rightarrow> (extract_book_data content, reqs')))"

section \<open>\<^verbatim>\<open>scrape_books\<close>\<close>

text \<open>Decimal digits of the page number, for \<^verbatim>\<open>base_url.format(page_num)\<close>.\<close>

fun str_nat :: "nat \<Rightarrow> string" where
  "str_nat n =
     (if n < 10 then [''0123456789'' ! n]
      else str_nat (n div 10) @ [''0123456789'' ! (n mod 10)])"

declare str_nat.simps [simp del]

definition str_int :: "int \<Rightarrow> string" where
  "str_int i = (if i < 0 then CHR ''-'' # str_nat (nat (- i)) else str_nat (nat i))"

definition catalog_url_of :: "int \<Rightarrow> string" where
  "catalog_url_of p = ''http://books.toscrape.com/catalogue/page-'' @ str_int p @ ''.html''"

text \<open>
  What the function holds and does: its two local variables, the requests it has made and
  the lines it has printed (one constructor for each \<^verbatim>\<open>print\<close> statement), and the contents
  of \<^verbatim>\<open>books_data.txt\<close> if it was written. The \<^verbatim>\<open>time.sleep(0.1)\<close> after each detail page
  changes none of these and is left out.
\<close>

datatype msg =
    Starting
  | ReachedLimit "int option"
  | Processing int string
  | PageNotFound int
  | NoBooksFound int
  | Scraped pyval
  | ErrorScraping string error
  | ErrorRequesting int request_exception
  | TotalScraped nat

record crawl_state =
  books_list :: "book_data list"
  page_num :: int
  requests :: "string list"
  log :: "msg list"
  books_data_txt :: "book_data list option"

definition print :: "msg \<Rightarrow> crawl_state \<Rightarrow> crawl_state" where
  "print m st = st\<lparr>log := log st @ [m]\<rparr>"

text \<open>
  Lines 134 to 141: the detail URL of one item container, when its heading, its anchor and a
  non-empty \<^verbatim>\<open>href\<close> are all there.
\<close>

definition article_ref :: "node \<Rightarrow> string option" where
  "article_ref article =
     (case find_in (named ''h3'') (contents article) of
        Some h3_tag \<Rightarrow>
          (case find_in (named ''a'') (contents h3_tag) of
             Some a_tag \<Rightarrow>
               (case tag_get a_tag ''href'' of
                  Some book_relative_url \<Rightarrow>
                    if book_relative_url \<noteq> []
                    then Some (''http://books.toscrape.com/catalogue/'' @ book_relative_url)
                    else None
                | None \<Rightarrow> None)
           | None \<Rightarrow> None)
      | None \<Rightarrow> None)"

text \<open>
  Lines 133 to 150: the body of the loop over the item containers. The inner \<^verbatim>\<open>try\<close> covers
  the call of \<^verbatim>\<open>get_book_data\<close>, the \<^verbatim>\<open>append\<close> and the \<^verbatim>\<open>print\<close> that reads the title.
\<close>

definition process_article :: "net \<Rightarrow> node \<Rightarrow> crawl_state \<Rightarrow> crawl_state" where
  "process_article nw article st =
     (case article_ref article of
        None \<Rightarrow> st
      | Some book_url \<Rightarrow>
          (case get_book_data nw book_url (requests st) of
             (Inl e, reqs') \<Rightarrow> print (ErrorScraping book_url e) (st\<lparr>requests := reqs'\<rparr>)
           | (Inr book_data, reqs') \<Rightarrow>
               (let st' = st\<lparr>requests := reqs', books_list := books_list st @ [book_data]\<rparr>
                in case dict_getitem book_data ''title'' of
                     Inl e \<Rightarrow> print (ErrorScraping book_url e) st'
                   | Inr title \<Rightarrow> print (Scraped title) st')))"

definition book_articles_of :: "soup \<Rightarrow> node list" where
  "book_articles_of soup = find_all_in (named_class ''article'' ''product_pod'') soup"

text \<open>
  One pass through the body of \<^verbatim>\<open>while True\<close>: it ends in one of the four \<^verbatim>\<open>break\<close>
  statements, goes round again, or leaves the function by an exception that
  \<^verbatim>\<open>except requests.RequestException\<close> does not catch (the parse at line 126 is inside that
  \<^verbatim>\<open>try\<close>). \<^verbatim>\<open>max_pages and page_num > max_pages\<close> is Python truthiness: \<^verbatim>\<open>None\<close> and
  \<^verbatim>\<open>0\<close> are both false.
\<close>

datatype 'a iter = Break 'a | Continue 'a | Uncaught error 'a

definition limit_reached :: "int option \<Rightarrow> int \<Rightarrow> bool" where
  "limit_reached max_pages p =
     (case max_pages of None \<Rightarrow> False | Some m \<Rightarrow> m \<noteq> 0 \<and> p > m)"

definition loop_body :: "net \<Rightarrow> int option \<Rightarrow> crawl_state \<Rightarrow> crawl_state iter" where
  "loop_body nw max_pages st =
     (if limit_reached max_pages (page_num st) then Break (print (ReachedLimit max_pages) st)
      else
        (let catalog_url = catalog_url_of (page_num st);
             st1 = print (Processing (page_num st) catalog_url) st
         in case requests_get nw catalog_url (requests st1) of
              (Raises e, reqs') \<Rightarrow>
                Break (print (ErrorRequesting (page_num st) e) (st1\<lparr>requests := reqs'\<rparr>))
            | (Response sc content, reqs') \<Rightarrow>
                (let st2 = st1\<lparr>requests := reqs'\<rparr>
                 in if sc = 404 then Break (print (PageNotFound (page_num st)) st2)
                    else
                      (case raise_for_status sc of
                         Inl e \<Rightarrow> Break (print (ErrorRequesting (page_num st) e) st2)
                       | Inr _ \<Rightarrow>
                           (case BeautifulSoup content of
                              Inl e \<Rightarrow> Uncaught e st2
                            | Inr soup \<Rightarrow>
                                (let book_articles = book_articles_of soup
                                 in if book_articles = []
                                    then Break (print (NoBooksFound (page_num st)) st2)
                                    else
                                      (let st3 = fold (process_article nw) book_articles st2
                                       in Continue (st3\<lparr>page_num := page_num st3 + 1\<rparr>))))))))"

text \<open>
  The \<^verbatim>\<open>while True\<close> loop. It need not end (a source can answer every page number with a
  page of items), so the loop is a partial function: \<^const>\<open>None\<close> means it never ends.
  When it ends, it ends by a \<^verbatim>\<open>break\<close> (\<^const>\<open>Inr\<close>) or by an exception that leaves the
  function (\<^const>\<open>Inl\<close>), in the state reached.
\<close>

partial_function (option) crawl_loop ::
    "net \<Rightarrow> int option \<Rightarrow> crawl_state \<Rightarrow> (error \<times> crawl_state + crawl_state) option" where
  "crawl_loop nw max_pages st =
     (case loop_body nw max_pages st of
        Break st' \<Rightarrow> Some (Inr st')
      | Uncaught e st' \<Rightarrow> Some (Inl (e, st'))
      | Continue st' \<Rightarrow> crawl_loop nw max_pages st')"

definition initial_state :: crawl_state where
  "initial_state =
     \<lparr>books_list = [], page_num = 1, requests = [], log = [Starting], books_data_txt = None\<rparr>"

definition finish :: "bool \<Rightarrow> crawl_state \<Rightarrow> crawl_state" where
  "finish is_save st =
     (let st' = print (TotalScraped (length (books_list st))) st
      in if is_save then st'\<lparr>books_data_txt := Some (books_list st')\<rparr> else st')"

text \<open>
  The whole run, with everything it did (lines 158 to 163 are reached only when the loop ends
  by a \<^verbatim>\<open>break\<close>), and what the caller gets: the list returned, or the exception raised.
\<close>

definition run_scrape_books ::
    "net \<Rightarrow> bool \<Rightarrow> int option \<Rightarrow> (error \<times> crawl_state + crawl_state) option" where
  "run_scrape_books nw is_save max_pages =
     map_option (map_sum id (finish is_save)) (crawl_loop nw max_pages initial_state)"

definition scrape_books :: "net \<Rightarrow> bool \<Rightarrow> int option \<Rightarrow> (error + book_data list) option" where
  "scrape_books nw is_save max_pages =
     map_option (map_sum fst books_list) (run_scrape_books nw is_save max_pages)"

declare crawl_loop.simps [code]

section \<open>Notions used to state the properties\<close>

text \<open>A field that holds extracted text or the \<^verbatim>\<open>None\<close> marker.\<close>

fun text_or_null :: "pyval \<Rightarrow> bool" where
  "text_or_null PNone = True"
| "text_or_null (PStr s) = True"
| "text_or_null (PDict d) = False"

text \<open>The rating read off the tokens of the indicator: the second token, if there are two.\<close>

definition rating_of_tokens :: "string list \<Rightarrow> pyval" where
  "rating_of_tokens cs = (if length cs < 2 then PNone else PStr (cs ! 1))"

text \<open>
  The key and value a table row contributes, if it has both a header cell and a data cell,
  and the contributions of all rows of the characteristics table in document order.
\<close>

definition row_pair :: "node \<Rightarrow> (string \<times> string) option" where
  "row_pair row =
     (case (find_in (named ''th'') (contents row), find_in (named ''td'') (contents row)) of
        (Some h, Some d) \<Rightarrow> Some (strip (text_of h), strip (text_of d))
      | _ \<Rightarrow> None)"

definition table_pairs :: "soup \<Rightarrow> (string \<times> string) list" where
  "table_pairs soup =
     (case find_in (named_class ''table'' ''table table-striped'') soup of
        None \<Rightarrow> []
      | Some table \<Rightarrow> List.map_filter row_pair (find_all_in (named ''tr'') (contents table)))"

text \<open>\<^verbatim>\<open>d[k] = v\<close> for a pair.\<close>

definition assign :: "('k \<times> 'v) list \<Rightarrow> 'k \<times> 'v \<Rightarrow> ('k \<times> 'v) list" where
  "assign d kv = AList.update (fst kv) (snd kv) d"

text \<open>
  The detail URLs of a listing page: those of its item containers that have one, in document
  order. These are the URLs the loop over the containers requests
  (lemma \<open>fold_process_article_effect\<close> below).
\<close>

definition extract_refs :: "soup \<Rightarrow> string list" where
  "extract_refs content = List.map_filter article_ref (book_articles_of content)"

text \<open>An item container whose heading, anchor and non-empty \<^verbatim>\<open>href\<close> are all present.\<close>

definition complete_entry :: "node \<Rightarrow> bool" where
  "complete_entry article =
     (case find_in (named ''h3'') (contents article) of
        None \<Rightarrow> False
      | Some h3_tag \<Rightarrow>
          (case find_in (named ''a'') (contents h3_tag) of
             None \<Rightarrow> False
           | Some a_tag \<Rightarrow>
               (case tag_get a_tag ''href'' of None \<Rightarrow> False | Some href \<Rightarrow> href \<noteq> [])))"

text \<open>
  An unchanged source answers a URL the same way at every time: the network is
  \<open>\<lambda>_. src\<close>. Against it, the outcome of \<^verbatim>\<open>get_book_data\<close> depends on the URL only, and
  the items of a listing page are the records of those of its detail pages that can be
  fetched and extracted, in order.
\<close>

definition book_at :: "(string \<Rightarrow> fetch_result) \<Rightarrow> string \<Rightarrow> error + book_data" where
  "book_at src url = fst (get_book_data (\<lambda>_. src) url [])"

definition items_of :: "(string \<Rightarrow> fetch_result) \<Rightarrow> string list \<Rightarrow> book_data list" where
  "items_of src urls =
     List.map_filter (\<lambda>u. case book_at src u of Inl e \<Rightarrow> None | Inr bd \<Rightarrow> Some bd) urls"

definition page_items :: "(string \<Rightarrow> fetch_result) \<Rightarrow> soup \<Rightarrow> book_data list" where
  "page_items src content = items_of src (extract_refs content)"

text \<open>
  The outcomes of fetching a listing page that the \<^verbatim>\<open>except requests.RequestException\<close>
  handler receives: \<^verbatim>\<open>requests.get\<close> raised, or the status is 4xx or 5xx and not 404.
\<close>

definition listing_fails :: "fetch_result \<Rightarrow> bool" where
  "listing_fails r =
     (case r of Raises e \<Rightarrow> True | Response sc content \<Rightarrow> sc \<noteq> 404 \<and> 400 \<le> sc \<and> sc < 600)"

definition listing_exception :: "fetch_result \<Rightarrow> request_exception" where
  "listing_exception r = (case r of Raises e \<Rightarrow> e | Response sc content \<Rightarrow> HTTPError sc)"

text \<open>The states in which the loop of one crawl begins a pass.\<close>

inductive reachable :: "net \<Rightarrow> int option \<Rightarrow> crawl_state \<Rightarrow> bool" for nw max_pages where
  start: "reachable nw max_pages initial_state"
| step: "reachable nw max_pages st \<Longrightarrow> loop_body nw max_pages st = Continue st'
          \<Longrightarrow> reachable nw max_pages st'"

section \<open>A small catalogue\<close>

text \<open>
  Two listing pages and then 404. The first page has one complete entry and one entry
  without a heading; the second has two complete entries, of which the first detail page
  times out and the second has no \<^verbatim>\<open>h1\<close>.
\<close>

definition listing1 :: soup where
  "listing1 =
     [Tag ''article'' [''product_pod''] []
        [Tag ''h3'' [] [] [Tag ''a'' [] [(''href'', ''b1/index.html'')] [NavigableString ''B1'']]],
      Tag ''article'' [''product_pod''] [] [Tag ''p'' [] [] [NavigableString ''no heading'']]]"

definition listing2 :: soup where
  "listing2 =
     [Tag ''article'' [''product_pod''] []
        [Tag ''h3'' [] [] [Tag ''a'' [] [(''href'', ''b2/index.html'')] []]],
      Tag ''article'' [''product_pod''] []
        [Tag ''h3'' [] [] [Tag ''a'' [] [(''href'', ''b3/index.html'')] []]]]"

definition book1 :: soup where
  "book1 =
     [Tag ''h1'' [] [] [NavigableString ''B1''],
      Tag ''p'' [''star-rating'', ''Three''] [] []]"

definition book3 :: soup where
  "book3 = [Tag ''p'' [''price_color''] [] [NavigableString ''9.99'']]"

definition catalogue :: "string \<Rightarrow> fetch_result" where
  "catalogue url =
     (if url = ''http://books.toscrape.com/catalogue/page-1.html''
        then Response 200 (Markup listing1)
      else if url = ''http://books.toscrape.com/catalogue/page-2.html''
        then Response 200 (Markup listing2)
      else if url = ''http://books.toscrape.com/catalogue/b1/index.html''
        then Response 200 (Markup book1)
      else if url = ''http://books.toscrape.com/catalogue/b2/index.html''
        then Raises Timeout
      else if url = ''http://books.toscrape.com/catalogue/b3/index.html''
        then Response 200 (Markup book3)
      else Response 404 (Markup []))"

definition page_url :: "string \<Rightarrow> string" where
  "page_url n = ''http://books.toscrape.com/catalogue/page-'' @ n @ ''.html''"

definition book_url_of :: "string \<Rightarrow> string" where
  "book_url_of n = ''http://books.toscrape.com/catalogue/'' @ n @ ''/index.html''"

text \<open>
  The same catalogue with the second listing page answered by 500, answered by 404, and
  answered by 200 with a body the parser rejects.
\<close>

definition catalogue_500 :: "string \<Rightarrow> fetch_result" where
  "catalogue_500 = catalogue(page_url ''2'' := Response 500 (Markup []))"

definition catalogue_404 :: "string \<Rightarrow> fetch_result" where
  "catalogue_404 = catalogue(page_url ''2'' := Response 404 (Markup []))"

definition catalogue_rejected :: "string \<Rightarrow> fetch_result" where
  "catalogue_rejected = catalogue(page_url ''2'' := Response 200 Rejected)"

definition book1_data :: book_data where
  "book1_data =
     [(''title'', PStr ''B1''), (''price'', PNone), (''rating'', PStr ''Three''),
      (''availability'', PNone), (''description'', PNone), (''product_info'', PDict [])]"

definition book3_data :: book_data where
  "book3_data =
     [(''title'', PNone), (''price'', PStr ''9.99''), (''rating'', PNone),
      (''availability'', PNone), (''description'', PNone), (''product_info'', PDict [])]"

text \<open>The state of a crawl of \<^const>\<open>catalogue\<close> when it begins the second page.\<close>

definition second_page_state :: crawl_state where
  "second_page_state =
     \<lparr>books_list = [book1_data], page_num = 2,
      requests = [page_url ''1'', book_url_of ''b1''],
      log = [Starting, Processing 1 (page_url ''1''), Scraped (PStr ''B1'')],
      books_data_txt = None\<rparr>"

text \<open>Detail documents for the rating and the characteristics table.\<close>

definition three_doc :: soup where
  "three_doc = [Tag ''html'' [] [] [Tag ''p'' [''star-rating'', ''Three''] [] []]]"

definition star_only_doc :: soup where
  "star_only_doc = [Tag ''html'' [] [] [Tag ''p'' [''star-rating''] [] []]]"

definition upc_doc :: soup where
  "upc_doc =
     [Tag ''table'' [''table'', ''table-striped''] []
        [Tag ''tr'' [] [] [Tag ''th'' [] [] [NavigableString ''UPC''],
                           Tag ''td'' [] [] [NavigableString ''abc123'']],
         Tag ''tr'' [] [] [Tag ''th'' [] [] [NavigableString ''Tax'']]]]"

section \<open>The extraction phase computes every field\<close>

lemma text_or_none_cases:
  "text_or_none t = Inr (case t of None \<Rightarrow> PNone | Some n \<Rightarrow> PStr (strip (text_of n)))"
  by (cases t) (simp_all add: text_or_none_def bind_err_def py_text_def)

lemma set_title_eq:
  "set_title soup bd = Inr (AList.update ''title''
      (case find_in (named ''h1'') soup of None \<Rightarrow> PNone | Some n \<Rightarrow> PStr (strip (text_of n))) bd)"
  by (simp add: set_title_def text_or_none_cases bind_err_def)

lemma set_price_eq:
  "set_price soup bd = Inr (AList.update ''price''
      (case find_in (named_class ''p'' ''price_color'') soup of
         None \<Rightarrow> PNone | Some n \<Rightarrow> PStr (strip (text_of n))) bd)"
  by (simp add: set_price_def text_or_none_cases bind_err_def)

lemma set_rating_eq:
  "set_rating soup bd = Inr (AList.update ''rating''
      (case find_in (named_class ''p'' ''star-rating'') soup of
         None \<Rightarrow> PNone | Some t \<Rightarrow> rating_of_tokens (get_class t)) bd)"
  by (auto simp: set_rating_def bind_err_def py_index_def rating_of_tokens_def Let_def
           split: option.splits)

lemma set_availability_eq:
  "set_availability soup bd = Inr (AList.update ''availability''
      (case find_in (named_class ''p'' ''instock availability'') soup of
         None \<Rightarrow> PNone | Some n \<Rightarrow> PStr (strip (text_of n))) bd)"
  by (auto simp: set_availability_def bind_err_def py_text_def Let_def split: option.splits)

lemma set_description_eq:
  "set_description soup bd = Inr (AList.update ''description''
      (case find_with_siblings (named_id ''div'' ''product_description'') soup of
         None \<Rightarrow> PNone
       | Some (t, following) \<Rightarrow>
           (case List.find (named ''p'') following of
              None \<Rightarrow> PNone | Some n \<Rightarrow> PStr (strip (text_of n)))) bd)"
  by (auto simp: set_description_def bind_err_def text_or_none_cases Let_def split: option.splits)

lemma scan_row_eq:
  "scan_row row d = Inr (case row_pair row of None \<Rightarrow> d | Some kv \<Rightarrow> assign d kv)"
  by (auto simp: scan_row_def row_pair_def assign_def bind_err_def py_text_def Let_def
           split: option.splits)

lemma scan_rows_eq:
  "scan_rows rows d = Inr (foldl assign d (List.map_filter row_pair rows))"
proof (induction rows arbitrary: d)
  case Nil
  show ?case by (simp add: List.map_filter_simps)
next
  case (Cons row rows)
  show ?case
    by (cases "row_pair row") (simp_all add: scan_row_eq bind_err_def Cons.IH List.map_filter_simps)
qed

lemma scan_table_eq: "scan_table soup = Inr (foldl assign [] (table_pairs soup))"
  by (simp add: scan_table_def table_pairs_def scan_rows_eq split: option.splits)

lemma set_product_info_eq:
  "set_product_info soup bd =
     Inr (AList.update ''product_info'' (PDict (foldl assign [] (table_pairs soup))) bd)"
  by (simp add: set_product_info_def scan_table_eq bind_err_def)

lemma map_of_assign: "map_of (assign d kv) = (map_of d)(fst kv \<mapsto> snd kv)"
  by (simp add: assign_def update_conv')

lemma map_of_foldl_assign:
  "map_of (foldl assign d ps) = map_of d ++ map_of (rev ps)"
proof (induction ps arbitrary: d)
  case Nil
  show ?case by simp
next
  case (Cons p ps)
  have "map_of (foldl assign d (p # ps)) = map_of (assign d p) ++ map_of (rev ps)"
    by (simp add: Cons.IH)
  also have "map_of (assign d p) = map_of d ++ [fst p \<mapsto> snd p]"
    by (simp add: map_of_assign)
  also have "(map_of d ++ [fst p \<mapsto> snd p]) ++ map_of (rev ps)
               = map_of d ++ map_of (rev (p # ps))"
    by (cases p) (simp add: map_add_assoc del: map_add_upd)
  finally show ?case .
qed

lemma distinct_foldl_assign:
  "distinct (map fst d) \<Longrightarrow> distinct (map fst (foldl assign d ps))"
  by (induction ps arbitrary: d) (simp_all add: assign_def distinct_update)

lemma extract_book_data_eq:
  "extract_book_data (Markup soup) = Inr
     [(''title'', case find_in (named ''h1'') soup of
                    None \<Rightarrow> PNone | Some n \<Rightarrow> PStr (strip (text_of n))),
      (''price'', case find_in (named_class ''p'' ''price_color'') soup of
                    None \<Rightarrow> PNone | Some n \<Rightarrow> PStr (strip (text_of n))),
      (''rating'', case find_in (named_class ''p'' ''star-rating'') soup of
                    None \<Rightarrow> PNone | Some t \<Rightarrow> rating_of_tokens (get_class t)),
      (''availability'', case find_in (named_class ''p'' ''instock availability'') soup of
                    None \<Rightarrow> PNone | Some n \<Rightarrow> PStr (strip (text_of n))),
      (''description'', case find_with_siblings (named_id ''div'' ''product_description'') soup of
                    None \<Rightarrow> PNone
                  | Some (t, following) \<Rightarrow>
                      (case List.find (named ''p'') following of
                         None \<Rightarrow> PNone | Some n \<Rightarrow> PStr (strip (text_of n)))),
      (''product_info'', PDict (foldl assign [] (table_pairs soup)))]"
  by (simp add: extract_book_data_def bind_err_def set_title_eq set_price_eq set_rating_eq
        set_availability_eq set_description_eq set_product_info_eq)

section \<open>Properties of the extraction phase\<close>

text \<open>
  C5. For every detail document (every tree the parser builds) the extraction returns a
  record whose \<^verbatim>\<open>rating\<close> is the
  second class token of the star-rating indicator (the first \<^verbatim>\<open>p\<close> tag matching
  \<^verbatim>\<open>star-rating\<close>), and is absent when there is no indicator or it has fewer than two
  tokens.
\<close>

theorem rating_is_second_token:
  "\<exists>bd. extract_book_data (Markup soup) = Inr bd \<and>
     map_of bd ''rating'' =
       Some (case find_in (named_class ''p'' ''star-rating'') soup of
               None \<Rightarrow> PNone
             | Some rating_tag \<Rightarrow> rating_of_tokens (get_class rating_tag))"
  by (simp add: extract_book_data_eq)

text \<open>
  The two scenarios: tokens \<^verbatim>\<open>["star-rating", "Three"]\<close> give \<^verbatim>\<open>"Three"\<close>, the token
  \<^verbatim>\<open>["star-rating"]\<close> alone gives an absent rating.
\<close>

theorem rating_is_second_token_witness:
  "(\<exists>bd. extract_book_data (Markup three_doc) = Inr bd \<and> map_of bd ''rating'' = Some (PStr ''Three'')) \<and>
   (\<exists>bd. extract_book_data (Markup star_only_doc) = Inr bd \<and> map_of bd ''rating'' = Some PNone)"
proof -
  have a: "(case find_in (named_class ''p'' ''star-rating'') three_doc of
               None \<Rightarrow> PNone
             | Some rating_tag \<Rightarrow> rating_of_tokens (get_class rating_tag)) = PStr ''Three''"
    by code_simp
  have b: "(case find_in (named_class ''p'' ''star-rating'') star_only_doc of
               None \<Rightarrow> PNone
             | Some rating_tag \<Rightarrow> rating_of_tokens (get_class rating_tag)) = PNone"
    by code_simp
  from rating_is_second_token [of three_doc] rating_is_second_token [of star_only_doc]
  show ?thesis unfolding a b by blast
qed

text \<open>
  C9. For every detail document, \<^verbatim>\<open>product_info\<close> is the dictionary obtained by assigning,
  row by row, the pair of each row of the characteristics table that has both a header cell
  and a data cell; rows missing either cell contribute nothing and raise nothing. So a key
  occurs once, and its value is that of the last row with that key.
\<close>

theorem product_info_from_rows:
  "\<exists>bd product_info.
     extract_book_data (Markup soup) = Inr bd \<and>
     map_of bd ''product_info'' = Some (PDict product_info) \<and>
     product_info = foldl assign [] (table_pairs soup) \<and>
     map_of product_info = map_of (rev (table_pairs soup)) \<and>
     distinct (map fst product_info)"
  by (simp add: extract_book_data_eq map_of_foldl_assign distinct_foldl_assign)

text \<open>
  The scenario: a row \<^verbatim>\<open>("UPC", "abc123")\<close> and a row with only a header cell give
  \<^verbatim>\<open>{"UPC": "abc123"}\<close>.
\<close>

theorem product_info_from_rows_witness:
  "table_pairs upc_doc = [(''UPC'', ''abc123'')] \<and>
   (\<exists>bd. extract_book_data (Markup upc_doc) = Inr bd \<and>
      map_of bd ''product_info'' = Some (PDict [(''UPC'', ''abc123'')]))"
proof -
  have a: "table_pairs upc_doc = [(''UPC'', ''abc123'')]" by code_simp
  have b: "foldl assign [] [(''UPC'', ''abc123'')] = [(''UPC'', ''abc123'')]" by code_simp
  from product_info_from_rows [of upc_doc] show ?thesis
    unfolding a b by blast
qed

text \<open>
  C10, as stated. The extraction phase begins with the parse (line 38), and on a body that
  \<^verbatim>\<open>html.parser\<close> rejects the parse raises: the phase returns no record.
\<close>

theorem extraction_rejected_counterexample:
  "extract_book_data Rejected = Inl ParserRejectedMarkup"
  by (simp add: extract_book_data_def bind_err_def)

text \<open>
  C10, amended. For every detail document that the parser accepts, whatever elements it
  contains, the extraction phase raises nothing and returns a dictionary with exactly the six
  keys \<^verbatim>\<open>title\<close>, \<^verbatim>\<open>price\<close>, \<^verbatim>\<open>rating\<close>, \<^verbatim>\<open>availability\<close>, \<^verbatim>\<open>description\<close> and
  \<^verbatim>\<open>product_info\<close>; each of the first five is text or \<^verbatim>\<open>None\<close>, and \<^verbatim>\<open>product_info\<close>
  is a dictionary.
\<close>

theorem extraction_never_raises:
  "\<exists>title price rating availability description product_info.
     extract_book_data (Markup soup) =
       Inr [(''title'', title), (''price'', price), (''rating'', rating),
            (''availability'', availability), (''description'', description),
            (''product_info'', PDict product_info)] \<and>
     text_or_null title \<and> text_or_null price \<and> text_or_null rating \<and>
     text_or_null availability \<and> text_or_null description"
  by (simp add: extract_book_data_eq rating_of_tokens_def split: option.splits prod.splits)

text \<open>The empty document has none of the expected elements.\<close>

theorem extraction_never_raises_witness:
  "\<exists>bd. extract_book_data (Markup []) = Inr bd \<and>
     map fst bd = [''title'', ''price'', ''rating'', ''availability'', ''description'',
                   ''product_info'']"
  using extraction_never_raises [of "[]"] by auto

section \<open>The loop, pass by pass\<close>

lemma crawl_loop_Break:
  "loop_body nw mp st = Break st' \<Longrightarrow> crawl_loop nw mp st = Some (Inr st')"
  by (subst crawl_loop.simps) simp

lemma crawl_loop_Uncaught:
  "loop_body nw mp st = Uncaught e st' \<Longrightarrow> crawl_loop nw mp st = Some (Inl (e, st'))"
  by (subst crawl_loop.simps) simp

lemma crawl_loop_Continue:
  "loop_body nw mp st = Continue st' \<Longrightarrow> crawl_loop nw mp st = crawl_loop nw mp st'"
  by (subst crawl_loop.simps) simp

lemma reachable_crawl_loop:
  "reachable nw mp st \<Longrightarrow> crawl_loop nw mp initial_state = crawl_loop nw mp st"
  by (induction rule: reachable.induct) (simp_all add: crawl_loop_Continue)

lemma snd_get_book_data: "snd (get_book_data nw u reqs) = reqs @ [u]"
  by (simp add: get_book_data_def requests_get_def split: fetch_result.splits sum.splits)

lemma fst_get_book_data_static:
  "fst (get_book_data (\<lambda>_. src) u reqs) = book_at src u"
  by (simp add: book_at_def get_book_data_def requests_get_def split: fetch_result.splits sum.splits)

lemma process_article_None: "article_ref a = None \<Longrightarrow> process_article nw a st = st"
  by (simp add: process_article_def)

lemma process_article_Inl:
  assumes "article_ref a = Some u" and "fst (get_book_data nw u (requests st)) = Inl e"
  shows "process_article nw a st =
           st\<lparr>requests := requests st @ [u], log := log st @ [ErrorScraping u e]\<rparr>"
proof -
  obtain r reqs' where g: "get_book_data nw u (requests st) = (r, reqs')"
    by (cases "get_book_data nw u (requests st)")
  have "reqs' = requests st @ [u]" using snd_get_book_data [of nw u "requests st"] g by simp
  moreover have "r = Inl e" using assms(2) g by simp
  ultimately show ?thesis using assms(1) g by (simp add: process_article_def print_def)
qed

lemma process_article_Inr:
  assumes "article_ref a = Some u" and "fst (get_book_data nw u (requests st)) = Inr bd"
  shows "process_article nw a st =
           st\<lparr>requests := requests st @ [u], books_list := books_list st @ [bd],
              log := log st @ [case map_of bd ''title'' of
                                 None \<Rightarrow> ErrorScraping u KeyError
                               | Some title \<Rightarrow> Scraped title]\<rparr>"
proof -
  obtain r reqs' where g: "get_book_data nw u (requests st) = (r, reqs')"
    by (cases "get_book_data nw u (requests st)")
  have "reqs' = requests st @ [u]" using snd_get_book_data [of nw u "requests st"] g by simp
  moreover have "r = Inr bd" using assms(2) g by simp
  ultimately show ?thesis using assms(1) g
    by (simp add: process_article_def print_def dict_getitem_def Let_def split: option.splits)
qed

lemma process_article_effect:
  "page_num (process_article nw a st) = page_num st \<and>
   books_data_txt (process_article nw a st) = books_data_txt st \<and>
   requests (process_article nw a st) =
     requests st @ (case article_ref a of None \<Rightarrow> [] | Some u \<Rightarrow> [u]) \<and>
   (\<exists>xs. books_list (process_article nw a st) = books_list st @ xs)"
proof (cases "article_ref a")
  case None
  then show ?thesis by (simp add: process_article_None)
next
  case (Some u)
  show ?thesis
  proof (cases "fst (get_book_data nw u (requests st))")
    case (Inl e)
    show ?thesis by (simp add: process_article_Inl [OF Some Inl] Some)
  next
    case (Inr bd)
    show ?thesis by (simp add: process_article_Inr [OF Some Inr] Some)
  qed
qed

lemma fold_process_article_effect:
  "page_num (fold (process_article nw) as st) = page_num st \<and>
   books_data_txt (fold (process_article nw) as st) = books_data_txt st \<and>
   requests (fold (process_article nw) as st) = requests st @ List.map_filter article_ref as \<and>
   (\<exists>xs. books_list (fold (process_article nw) as st) = books_list st @ xs)"
proof (induction as arbitrary: st)
  case Nil
  show ?case by (simp add: List.map_filter_simps)
next
  case (Cons a as)
  note step = process_article_effect [of nw a st]
  note rest = Cons.IH [of "process_article nw a st"]
  have "page_num (fold (process_article nw) (a # as) st) = page_num st"
    using step rest by simp
  moreover have "books_data_txt (fold (process_article nw) (a # as) st) = books_data_txt st"
    using step rest by simp
  moreover have "requests (fold (process_article nw) (a # as) st)
                   = requests st @ List.map_filter article_ref (a # as)"
    using step rest by (cases "article_ref a") (simp_all add: List.map_filter_simps)
  moreover have "\<exists>xs. books_list (fold (process_article nw) (a # as) st) = books_list st @ xs"
  proof -
    obtain xs where xs: "books_list (process_article nw a st) = books_list st @ xs"
      using step by blast
    obtain ys where "books_list (fold (process_article nw) as (process_article nw a st))
                       = books_list (process_article nw a st) @ ys"
      using rest by blast
    then have "books_list (fold (process_article nw) (a # as) st) = books_list st @ (xs @ ys)"
      using xs by simp
    then show ?thesis by blast
  qed
  ultimately show ?case by blast
qed

lemma fold_process_article_static:
  "books_list (fold (process_article (\<lambda>_. src)) as st)
     = books_list st @ items_of src (List.map_filter article_ref as)"
proof (induction as arbitrary: st)
  case Nil
  show ?case by (simp add: items_of_def List.map_filter_simps)
next
  case (Cons a as)
  show ?case
  proof (cases "article_ref a")
    case None
    then show ?thesis
      by (simp add: process_article_None Cons.IH List.map_filter_simps)
  next
    case (Some u)
    show ?thesis
    proof (cases "book_at src u")
      case (Inl e)
      then have "fst (get_book_data (\<lambda>_. src) u (requests st)) = Inl e"
        by (simp add: fst_get_book_data_static)
      from process_article_Inl [OF Some this] Inl Some show ?thesis
        by (simp add: Cons.IH items_of_def List.map_filter_simps)
    next
      case (Inr bd)
      then have "fst (get_book_data (\<lambda>_. src) u (requests st)) = Inr bd"
        by (simp add: fst_get_book_data_static)
      from process_article_Inr [OF Some this] Inr Some show ?thesis
        by (simp add: Cons.IH items_of_def List.map_filter_simps)
    qed
  qed
qed

lemma loop_body_limit:
  "limit_reached mp (page_num st) \<Longrightarrow> loop_body nw mp st = Break (print (ReachedLimit mp) st)"
  by (simp add: loop_body_def)

lemma loop_body_fails:
  assumes "\<not> limit_reached mp (page_num st)"
    and "listing_fails (nw (length (requests st)) (catalog_url_of (page_num st)))"
  shows "loop_body nw mp st =
           Break (st\<lparr>requests := requests st @ [catalog_url_of (page_num st)],
                    log := log st @ [Processing (page_num st) (catalog_url_of (page_num st)),
                                     ErrorRequesting (page_num st)
                                       (listing_exception
                                          (nw (length (requests st)) (catalog_url_of (page_num st))))]\<rparr>)"
  using assms
  by (cases "nw (length (requests st)) (catalog_url_of (page_num st))")
     (simp_all add: loop_body_def listing_fails_def listing_exception_def requests_get_def
        raise_for_status_def print_def Let_def)

lemma loop_body_not_found:
  assumes "\<not> limit_reached mp (page_num st)"
    and "nw (length (requests st)) (catalog_url_of (page_num st)) = Response 404 content"
  shows "loop_body nw mp st =
           Break (st\<lparr>requests := requests st @ [catalog_url_of (page_num st)],
                    log := log st @ [Processing (page_num st) (catalog_url_of (page_num st)),
                                     PageNotFound (page_num st)]\<rparr>)"
  using assms by (simp add: loop_body_def requests_get_def print_def Let_def)

lemma loop_body_page:
  assumes "\<not> limit_reached mp (page_num st)"
    and "nw (length (requests st)) (catalog_url_of (page_num st)) = Response sc (Markup content)"
    and "sc \<noteq> 404" and "\<not> (400 \<le> sc \<and> sc < 600)" and "book_articles_of content \<noteq> []"
  shows "loop_body nw mp st =
           Continue ((fold (process_article nw) (book_articles_of content)
                       (st\<lparr>log := log st @ [Processing (page_num st) (catalog_url_of (page_num st))],
                          requests := requests st @ [catalog_url_of (page_num st)]\<rparr>))
                     \<lparr>page_num := page_num st + 1\<rparr>)"
  using assms
  by (simp add: loop_body_def requests_get_def print_def Let_def raise_for_status_def
        fold_process_article_effect)

lemma loop_body_rejected:
  assumes "\<not> limit_reached mp (page_num st)"
    and "nw (length (requests st)) (catalog_url_of (page_num st)) = Response sc Rejected"
    and "sc \<noteq> 404" and "\<not> (400 \<le> sc \<and> sc < 600)"
  shows "loop_body nw mp st =
           Uncaught ParserRejectedMarkup
             (st\<lparr>log := log st @ [Processing (page_num st) (catalog_url_of (page_num st))],
                requests := requests st @ [catalog_url_of (page_num st)]\<rparr>)"
  using assms
  by (simp add: loop_body_def requests_get_def print_def Let_def raise_for_status_def)

lemma loop_body_Break_books:
  "loop_body nw mp st = Break st' \<Longrightarrow> books_list st' = books_list st"
  by (auto simp: loop_body_def requests_get_def print_def Let_def raise_for_status_def
        split: if_splits fetch_result.splits prod.splits sum.splits)

lemma loop_body_Continue_effect:
  assumes "loop_body nw mp st = Continue st'"
  shows "page_num st' = page_num st + 1 \<and> (\<exists>xs. books_list st' = books_list st @ xs)"
proof -
  from assms obtain as st0 where
    st': "st' = (fold (process_article nw) as st0)\<lparr>page_num := page_num st0 + 1\<rparr>"
    and st0: "page_num st0 = page_num st" "books_list st0 = books_list st"
    by (auto simp: loop_body_def requests_get_def print_def Let_def raise_for_status_def
        fold_process_article_effect
        split: if_splits fetch_result.splits prod.splits sum.splits)
  show ?thesis
    using fold_process_article_effect [of nw as st0] st0 by (auto simp: st')
qed

lemma article_ref_complete: "(\<exists>u. article_ref a = Some u) \<longleftrightarrow> complete_entry a"
  by (simp add: article_ref_def complete_entry_def split: option.splits)

lemma books_list_finish: "books_list (finish is_save st) = books_list st"
  by (simp add: finish_def print_def Let_def)

lemma log_finish: "log (finish is_save st) = log st @ [TotalScraped (length (books_list st))]"
  by (simp add: finish_def print_def Let_def)

lemma scrape_books_Some:
  "crawl_loop nw mp initial_state = Some (Inr st)
     \<Longrightarrow> scrape_books nw is_save mp = Some (Inr (books_list st))"
  by (simp add: scrape_books_def run_scrape_books_def books_list_finish)

lemma scrape_books_Raised:
  "crawl_loop nw mp initial_state = Some (Inl (e, st))
     \<Longrightarrow> scrape_books nw is_save mp = Some (Inl e)"
  by (simp add: scrape_books_def run_scrape_books_def)

lemma limit_reached_None: "\<not> limit_reached None p"
  by (simp add: limit_reached_def)

lemma loop_body_same_limit:
  assumes "\<not> limit_reached mp (page_num st)" and "\<not> limit_reached mp' (page_num st)"
  shows "loop_body nw mp st = loop_body nw mp' st"
  using assms by (simp add: loop_body_def)

section \<open>Properties of the crawl\<close>

text \<open>
  When fetching a listing page fails in some pass of a crawl (\<^verbatim>\<open>requests.get\<close> raises, or
  the status is 4xx or 5xx other than 404), the function prints an
  \<^verbatim>\<open>Error requesting page\<close> line, ends the loop and returns the items accumulated up to
  that pass.
\<close>

lemma listing_failure_returns_partial:
  assumes "reachable nw max_pages st"
    and "\<not> limit_reached max_pages (page_num st)"
    and "listing_fails (nw (length (requests st)) (catalog_url_of (page_num st)))"
  shows "scrape_books nw is_save max_pages = Some (Inr (books_list st)) \<and>
         map_option (map_sum id log) (run_scrape_books nw is_save max_pages) =
           Some (Inr (log st @
             [Processing (page_num st) (catalog_url_of (page_num st)),
              ErrorRequesting (page_num st)
                (listing_exception (nw (length (requests st)) (catalog_url_of (page_num st)))),
              TotalScraped (length (books_list st))]))"
proof -
  let ?st' = "st\<lparr>requests := requests st @ [catalog_url_of (page_num st)],
                log := log st @ [Processing (page_num st) (catalog_url_of (page_num st)),
                  ErrorRequesting (page_num st)
                    (listing_exception (nw (length (requests st)) (catalog_url_of (page_num st))))]\<rparr>"
  have "crawl_loop nw max_pages st = Some (Inr ?st')"
    using assms(2,3) by (intro crawl_loop_Break loop_body_fails)
  then have run: "crawl_loop nw max_pages initial_state = Some (Inr ?st')"
    using reachable_crawl_loop [OF assms(1)] by simp
  show ?thesis
    using scrape_books_Some [OF run, of is_save]
    by (simp add: run_scrape_books_def run log_finish)
qed

text \<open>
  C1. The crawl of \<^const>\<open>catalogue_500\<close> has taken one item from page 1 when page 2
  fails with status 500. It ends and returns that item, which is the partial result; but
  the caller gets nothing else. The crawl of \<^const>\<open>catalogue_404\<close>, which reaches the
  end of the catalogue at page 2, returns the same value: the failure shows only in the
  printed line, and no \<^verbatim>\<open>RequestException\<close> reaches the caller, although the docstring of
  \<^verbatim>\<open>scrape_books\<close> announces one.
\<close>

theorem listing_failure_not_indicated:
  "listing_fails (catalogue_500 (catalog_url_of 2)) \<and>
   \<not> listing_fails (catalogue_404 (catalog_url_of 2)) \<and>
   scrape_books (\<lambda>_. catalogue_500) False None = Some (Inr [book1_data]) \<and>
   scrape_books (\<lambda>_. catalogue_404) False None = Some (Inr [book1_data]) \<and>
   map_option (map_sum id log) (run_scrape_books (\<lambda>_. catalogue_500) False None) =
     Some (Inr [Starting, Processing 1 (page_url ''1''), Scraped (PStr ''B1''),
                Processing 2 (page_url ''2''), ErrorRequesting 2 (HTTPError 500),
                TotalScraped 1])"
  by code_simp

text \<open>
  C2. \<^verbatim>\<open>max_pages = 0\<close> is false in \<^verbatim>\<open>if max_pages and page_num > max_pages\<close>, so the
  bound is never checked: against \<^const>\<open>catalogue\<close> the crawl makes six requests and
  returns two items, where a bound of zero pages asks for none.
\<close>

theorem max_pages_zero_crawls:
  "scrape_books (\<lambda>_. catalogue) False (Some 0) = Some (Inr [book1_data, book3_data]) \<and>
   map_option (map_sum id requests) (run_scrape_books (\<lambda>_. catalogue) False (Some 0)) =
     Some (Inr [page_url ''1'', book_url_of ''b1'', page_url ''2'', book_url_of ''b2'',
                book_url_of ''b3'', page_url ''3''])"
  by code_simp

text \<open>
  C3, as stated. The first listing page has two item containers and yields one
  reference: the entry without a heading is left out.
\<close>

theorem extract_refs_counterexample:
  "length (book_articles_of listing1) = 2 \<and> length (extract_refs listing1) = 1"
  by code_simp

text \<open>
  C3, amended. The number of references extracted from a listing document is the number
  of its item containers whose heading, anchor and non-empty \<^verbatim>\<open>href\<close> are all present.
  It never exceeds the number of item containers and equals it when every entry is
  complete.
\<close>

theorem extract_refs_length:
  "length (extract_refs content) = length (filter complete_entry (book_articles_of content)) \<and>
   length (extract_refs content) \<le> length (book_articles_of content) \<and>
   (list_all complete_entry (book_articles_of content) \<longrightarrow>
      length (extract_refs content) = length (book_articles_of content))"
proof -
  have "length (extract_refs content) = length (filter complete_entry (book_articles_of content))"
    by (simp add: extract_refs_def List.map_filter_def article_ref_complete)
  then show ?thesis by (simp add: list_all_iff)
qed

theorem extract_refs_length_witness:
  "list_all complete_entry (book_articles_of listing2) \<and>
   length (extract_refs listing2) = 2 \<and> length (book_articles_of listing2) = 2"
proof -
  have c: "list_all complete_entry (book_articles_of listing2)" by code_simp
  have n: "length (book_articles_of listing2) = 2" by code_simp
  from extract_refs_length [of listing2] c n show ?thesis by simp
qed

text \<open>
  C4. Take any pass of the loop over a listing page that was fetched and has item
  containers, and any container of that page whose detail page fails (in the request or in
  the extraction). The failure is printed with the URL of the detail page, nothing is
  appended to the result for it, the loop goes on with the containers after it, and the pass
  ends by moving to the next page.
\<close>

theorem item_failure_skipped:
  assumes "\<not> limit_reached max_pages (page_num st)"
    and "nw (length (requests st)) (catalog_url_of (page_num st)) = Response sc (Markup content)"
    and "sc \<noteq> 404" and "\<not> (400 \<le> sc \<and> sc < 600)"
    and "book_articles_of content = before @ article # after"
    and "st_a = fold (process_article nw) before
                  (st\<lparr>log := log st @ [Processing (page_num st) (catalog_url_of (page_num st))],
                     requests := requests st @ [catalog_url_of (page_num st)]\<rparr>)"
    and "article_ref article = Some book_url"
    and "fst (get_book_data nw book_url (requests st_a)) = Inl e"
  shows "loop_body nw max_pages st =
           Continue ((fold (process_article nw) after
                        (st_a\<lparr>requests := requests st_a @ [book_url],
                             log := log st_a @ [ErrorScraping book_url e]\<rparr>))
                     \<lparr>page_num := page_num st + 1\<rparr>)"
proof -
  have "book_articles_of content \<noteq> []" using assms(5) by simp
  from loop_body_page [where nw = nw, OF assms(1) assms(2) assms(3) assms(4) this]
  show ?thesis
    by (simp add: assms(5) assms(6) [symmetric] process_article_Inl [OF assms(7) assms(8)])
qed

text \<open>
  On the second page of \<^const>\<open>catalogue\<close> the first detail page times out; the
  second is still fetched and the crawl moves to page 3.
\<close>

theorem item_failure_skipped_witness:
  "loop_body (\<lambda>_. catalogue) None second_page_state =
     Continue
       \<lparr>books_list = [book1_data, book3_data], page_num = 3,
        requests = [page_url ''1'', book_url_of ''b1'', page_url ''2'', book_url_of ''b2'',
                    book_url_of ''b3''],
        log = [Starting, Processing 1 (page_url ''1''), Scraped (PStr ''B1''),
               Processing 2 (page_url ''2''),
               ErrorScraping (book_url_of ''b2'') (RequestException Timeout),
               Scraped PNone],
        books_data_txt = None\<rparr>"
proof -
  let ?nw = "\<lambda>_::nat. catalogue"
  let ?a = "Tag ''article'' [''product_pod''] []
              [Tag ''h3'' [] [] [Tag ''a'' [] [(''href'', ''b2/index.html'')] []]]"
  let ?b = "Tag ''article'' [''product_pod''] []
              [Tag ''h3'' [] [] [Tag ''a'' [] [(''href'', ''b3/index.html'')] []]]"
  let ?st_a = "second_page_state\<lparr>log := log second_page_state @ [Processing 2 (page_url ''2'')],
                  requests := requests second_page_state @ [page_url ''2'']\<rparr>"
  have h1: "\<not> limit_reached None (page_num second_page_state)" by code_simp
  have h2: "?nw (length (requests second_page_state)) (catalog_url_of (page_num second_page_state))
              = Response 200 (Markup listing2)" by code_simp
  have h3: "(200::nat) \<noteq> 404" and h4: "\<not> (400 \<le> (200::nat) \<and> (200::nat) < 600)" by simp_all
  have h5: "book_articles_of listing2 = [] @ ?a # [?b]" by code_simp
  have h6: "?st_a = fold (process_article ?nw) []
              (second_page_state\<lparr>log := log second_page_state @
                    [Processing (page_num second_page_state)
                       (catalog_url_of (page_num second_page_state))],
                 requests := requests second_page_state @
                    [catalog_url_of (page_num second_page_state)]\<rparr>)" by code_simp
  have h7: "article_ref ?a = Some (book_url_of ''b2'')" by code_simp
  have h8: "fst (get_book_data ?nw (book_url_of ''b2'') (requests ?st_a))
              = Inl (RequestException Timeout)" by code_simp
  have r: "(fold (process_article ?nw) [?b]
              (?st_a\<lparr>requests := requests ?st_a @ [book_url_of ''b2''],
                   log := log ?st_a @ [ErrorScraping (book_url_of ''b2'') (RequestException Timeout)]\<rparr>))
            \<lparr>page_num := page_num second_page_state + 1\<rparr> =
       \<lparr>books_list = [book1_data, book3_data], page_num = 3,
        requests = [page_url ''1'', book_url_of ''b1'', page_url ''2'', book_url_of ''b2'',
                    book_url_of ''b3''],
        log = [Starting, Processing 1 (page_url ''1''), Scraped (PStr ''B1''),
               Processing 2 (page_url ''2''),
               ErrorScraping (book_url_of ''b2'') (RequestException Timeout),
               Scraped PNone],
        books_data_txt = None\<rparr>" by code_simp
  from item_failure_skipped [where nw = ?nw, OF h1 h2 h3 h4 h5 h6 h7 h8] show ?thesis
    unfolding r .
qed

text \<open>
  C6. Against an unchanged source whose pages 1 and 2 are answered with a 2xx status and
  have item containers, and whose page 3 is answered by 404, the crawl without a bound
  returns, and returns the items of page 1 followed by the items of page 2.
\<close>

theorem two_pages_then_404:
  assumes "src (catalog_url_of 1) = Response sc1 (Markup content1)"
    and "200 \<le> sc1 \<and> sc1 < 300" and "book_articles_of content1 \<noteq> []"
    and "src (catalog_url_of 2) = Response sc2 (Markup content2)"
    and "200 \<le> sc2 \<and> sc2 < 300" and "book_articles_of content2 \<noteq> []"
    and "src (catalog_url_of 3) = Response 404 content3"
  shows "scrape_books (\<lambda>_. src) is_save None
           = Some (Inr (page_items src content1 @ page_items src content2))"
proof -
  let ?nw = "\<lambda>_::nat. src"
  let ?f = "fold (process_article ?nw)"
  define st1 where "st1 = (?f (book_articles_of content1)
      (initial_state\<lparr>log := log initial_state @ [Processing 1 (catalog_url_of 1)],
         requests := requests initial_state @ [catalog_url_of 1]\<rparr>))\<lparr>page_num := 2\<rparr>"
  define st2 where "st2 = (?f (book_articles_of content2)
      (st1\<lparr>log := log st1 @ [Processing 2 (catalog_url_of 2)],
         requests := requests st1 @ [catalog_url_of 2]\<rparr>))\<lparr>page_num := 3\<rparr>"
  have p0: "page_num initial_state = 1" "books_list initial_state = []"
    by (simp_all add: initial_state_def)
  have p1: "page_num st1 = 2" by (simp add: st1_def)
  have p2: "page_num st2 = 3" by (simp add: st2_def)
  have b1: "books_list st1 = page_items src content1"
    by (simp add: st1_def fold_process_article_static p0 page_items_def extract_refs_def)
  have b2: "books_list st2 = page_items src content1 @ page_items src content2"
    by (simp add: st2_def fold_process_article_static b1 page_items_def extract_refs_def)
  have "loop_body ?nw None initial_state = Continue st1"
    using loop_body_page [where nw = ?nw and mp = None and st = initial_state
        and sc = sc1 and content = content1] assms(1,2,3)
    by (simp add: limit_reached_None p0 st1_def)
  then have s1: "crawl_loop ?nw None initial_state = crawl_loop ?nw None st1"
    by (rule crawl_loop_Continue)
  have "loop_body ?nw None st1 = Continue st2"
    using loop_body_page [where nw = ?nw and mp = None and st = st1
        and sc = sc2 and content = content2] assms(4,5,6)
    by (simp add: limit_reached_None p1 st2_def)
  then have s2: "crawl_loop ?nw None st1 = crawl_loop ?nw None st2"
    by (rule crawl_loop_Continue)
  have "\<exists>st3. loop_body ?nw None st2 = Break st3"
    using loop_body_not_found [where nw = ?nw and mp = None and st = st2 and content = content3]
      assms(7)
    by (simp add: limit_reached_None p2)
  then obtain st3 where l3: "loop_body ?nw None st2 = Break st3" by blast
  have b3: "books_list st3 = books_list st2" using l3 by (rule loop_body_Break_books)
  have "crawl_loop ?nw None initial_state = Some (Inr st3)"
    using crawl_loop_Break [OF l3] s1 s2 by simp
  from scrape_books_Some [OF this, of is_save] show ?thesis
    by (simp add: b3 b2)
qed

theorem two_pages_then_404_witness:
  "scrape_books (\<lambda>_. catalogue) False None = Some (Inr [book1_data, book3_data]) \<and>
   page_items catalogue listing1 = [book1_data] \<and>
   page_items catalogue listing2 = [book3_data]"
proof -
  have h1: "catalogue (catalog_url_of 1) = Response 200 (Markup listing1)" by code_simp
  have h2: "200 \<le> (200::nat) \<and> (200::nat) < 300" by simp
  have h3: "book_articles_of listing1 \<noteq> []" by code_simp
  have h4: "catalogue (catalog_url_of 2) = Response 200 (Markup listing2)" by code_simp
  have h6: "book_articles_of listing2 \<noteq> []" by code_simp
  have h7: "catalogue (catalog_url_of 3) = Response 404 (Markup [])" by code_simp
  have i1: "page_items catalogue listing1 = [book1_data]" by code_simp
  have i2: "page_items catalogue listing2 = [book3_data]" by code_simp
  from two_pages_then_404 [OF h1 h2 h3 h4 h2 h6 h7, of False] show ?thesis
    by (simp add: i1 i2)
qed

text \<open>
  Two crawls that meet the same network, one with \<^verbatim>\<open>max_pages = 1\<close> and one with
  \<^verbatim>\<open>max_pages = 2\<close>: whenever the second returns a list, the first returns an initial
  segment of it.
\<close>

lemma two_pages_extend_one_page:
  assumes "scrape_books nw is_save (Some 2) = Some (Inr r2)"
  shows "\<exists>r1 xs. scrape_books nw is_save (Some 1) = Some (Inr r1) \<and> r2 = r1 @ xs"
proof -
  have l1: "\<And>p. limit_reached (Some 1) p \<longleftrightarrow> p > 1"
    and l2: "\<And>p. limit_reached (Some 2) p \<longleftrightarrow> p > 2"
    by (simp_all add: limit_reached_def)
  have p0: "page_num initial_state = 1" by (simp add: initial_state_def)
  have same: "loop_body nw (Some 2) initial_state = loop_body nw (Some 1) initial_state"
    by (rule loop_body_same_limit) (simp_all add: l1 l2 p0)
  show ?thesis
  proof (cases "loop_body nw (Some 1) initial_state")
    case (Break st1)
    have "crawl_loop nw (Some 1) initial_state = Some (Inr st1)"
      using Break by (rule crawl_loop_Break)
    moreover have "crawl_loop nw (Some 2) initial_state = Some (Inr st1)"
      using Break same by (simp add: crawl_loop_Break)
    ultimately show ?thesis
      using assms by (simp add: scrape_books_Some)
  next
    case (Uncaught e st1)
    have "crawl_loop nw (Some 2) initial_state = Some (Inl (e, st1))"
      using Uncaught same by (simp add: crawl_loop_Uncaught)
    then show ?thesis
      using assms by (simp add: scrape_books_Raised)
  next
    case (Continue st1)
    from loop_body_Continue_effect [OF Continue]
    have p1: "page_num st1 = 2" by (simp add: p0)
    have "loop_body nw (Some 1) st1 = Break (print (ReachedLimit (Some 1)) st1)"
      by (rule loop_body_limit) (simp add: l1 p1)
    then have "crawl_loop nw (Some 1) st1 = Some (Inr (print (ReachedLimit (Some 1)) st1))"
      by (rule crawl_loop_Break)
    then have "crawl_loop nw (Some 1) initial_state
                 = Some (Inr (print (ReachedLimit (Some 1)) st1))"
      using crawl_loop_Continue [OF Continue] by simp
    then have r1: "scrape_books nw is_save (Some 1) = Some (Inr (books_list st1))"
      by (simp add: scrape_books_Some print_def)
    have c2: "crawl_loop nw (Some 2) initial_state = crawl_loop nw (Some 2) st1"
      using Continue same by (simp add: crawl_loop_Continue)
    have "\<exists>xs. r2 = books_list st1 @ xs"
    proof (cases "loop_body nw (Some 2) st1")
      case (Break st2)
      have "books_list st2 = books_list st1" using Break by (rule loop_body_Break_books)
      moreover have "crawl_loop nw (Some 2) initial_state = Some (Inr st2)"
        using c2 crawl_loop_Break [OF Break] by simp
      ultimately show ?thesis using assms by (simp add: scrape_books_Some)
    next
      case u: (Uncaught e st2)
      have "crawl_loop nw (Some 2) initial_state = Some (Inl (e, st2))"
        using c2 crawl_loop_Uncaught [OF u] by simp
      then show ?thesis using assms by (simp add: scrape_books_Raised)
    next
      case st2: (Continue st2)
      from loop_body_Continue_effect [OF st2] obtain xs
        where p2: "page_num st2 = 3" and b2: "books_list st2 = books_list st1 @ xs"
        by (auto simp: p1)
      have "loop_body nw (Some 2) st2 = Break (print (ReachedLimit (Some 2)) st2)"
        by (rule loop_body_limit) (simp add: l2 p2)
      then have "crawl_loop nw (Some 2) st2 = Some (Inr (print (ReachedLimit (Some 2)) st2))"
        by (rule crawl_loop_Break)
      then have "crawl_loop nw (Some 2) initial_state
                   = Some (Inr (print (ReachedLimit (Some 2)) st2))"
        using c2 crawl_loop_Continue [OF st2] by simp
      then show ?thesis using assms by (auto simp: scrape_books_Some print_def b2)
    qed
    with r1 show ?thesis by auto
  qed
qed

text \<open>
  C7. But the second need not return a list. In \<^const>\<open>catalogue_rejected\<close> page 1 has
  item containers and the body of page 2 is rejected by the parser. The parse of a listing
  page is inside a \<^verbatim>\<open>try\<close> that catches \<^verbatim>\<open>requests.RequestException\<close> only, so with
  \<^verbatim>\<open>max_pages = 2\<close> the exception leaves \<^verbatim>\<open>scrape_books\<close> and the item of page 1 is lost,
  while with \<^verbatim>\<open>max_pages = 1\<close> the crawl returns it. The same exception on a detail page is
  caught by \<^verbatim>\<open>except Exception\<close>.
\<close>

theorem rejected_listing_breaks_monotonicity:
  "catalogue_rejected (catalog_url_of 1) = Response 200 (Markup listing1) \<and>
   book_articles_of listing1 \<noteq> [] \<and>
   catalogue_rejected (catalog_url_of 2) = Response 200 Rejected \<and>
   scrape_books (\<lambda>_. catalogue_rejected) False (Some 1) = Some (Inr [book1_data]) \<and>
   scrape_books (\<lambda>_. catalogue_rejected) False (Some 2) = Some (Inl ParserRejectedMarkup)"
  by code_simp

text \<open>
  When a detail page is fetched and parsed and has no \<^verbatim>\<open>h1\<close>, the extraction returns a
  record whose title is \<^verbatim>\<open>None\<close>, and the loop appends that record to the result like any
  other and prints \<^verbatim>\<open>Scraped: None\<close>.
\<close>

lemma null_title_item_appended:
  assumes "article_ref article = Some book_url"
    and "nw (length (requests st)) book_url = Response sc (Markup content)"
    and "\<not> (400 \<le> sc \<and> sc < 600)"
    and "find_in (named ''h1'') content = None"
  shows "\<exists>book_data.
           extract_book_data (Markup content) = Inr book_data \<and>
           map_of book_data ''title'' = Some PNone \<and>
           process_article nw article st =
             st\<lparr>requests := requests st @ [book_url],
                books_list := books_list st @ [book_data],
                log := log st @ [Scraped PNone]\<rparr>"
proof -
  obtain bd where bd: "extract_book_data (Markup content) = Inr bd"
    and t: "map_of bd ''title'' = Some PNone"
    using assms(4) by (simp add: extract_book_data_eq)
  have "fst (get_book_data nw book_url (requests st)) = Inr bd"
    using assms(2,3) bd by (simp add: get_book_data_def requests_get_def raise_for_status_def)
  from process_article_Inr [OF assms(1) this] bd t show ?thesis by simp
qed

text \<open>
  C8. The detail page \<^verbatim>\<open>b3\<close> of \<^const>\<open>catalogue\<close> has no \<^verbatim>\<open>h1\<close>. Its record has a
  \<^verbatim>\<open>None\<close> title and is in the list the crawl returns, where an item without a title was
  to be left out (\<^verbatim>\<open>test_each_book_has_title\<close> asserts that no returned item has a
  \<^verbatim>\<open>None\<close> title).
\<close>

theorem null_title_item_kept:
  "article_ref (Tag ''article'' [''product_pod''] []
        [Tag ''h3'' [] [] [Tag ''a'' [] [(''href'', ''b3/index.html'')] []]])
     = Some (book_url_of ''b3'') \<and>
   catalogue (book_url_of ''b3'') = Response 200 (Markup book3) \<and>
   extract_book_data (Markup book3) = Inr book3_data \<and>
   map_of book3_data ''title'' = Some PNone \<and>
   scrape_books (\<lambda>_. catalogue) False (Some 2) = Some (Inr [book1_data, book3_data])"
  by code_simp

end
